theory Spec2Isabelle
  imports Complex_Main "HOL-Library.Word"
begin

section \<open>IEEE 754 binary64 arithmetic, as Go's float64 computes\<close>

text \<open>
  Every arithmetic operation of package ftracker is a float64 operation. A float64 is
  modelled by its value class: not-a-number, a signed infinity, or a signed finite
  number \<open>m * 2 ^ e\<close> kept in the canonical form of the format (\<open>m < 2 ^ 53\<close>,
  \<open>- 1074 \<le> e \<le> 971\<close>, and \<open>2 ^ 52 \<le> m\<close> unless \<open>e = - 1074\<close>), so that two
  finite values are the same term exactly when they are the same bit pattern. The
  payload of a not-a-number is not observable in this package and is dropped.
  Each operation rounds its exact result once, to nearest with ties to even; a product
  and a sum are two operations, as on amd64, where the compiler does not fuse them.
  An \<open>int\<close> has 64 bits.
\<close>

datatype float64 = NaN | Inf bool | Fin bool nat int

type_synonym go_int = "64 word"

text \<open>The number of binary digits of a natural number.\<close>

fun bitlength :: "nat \<Rightarrow> nat" where
  "bitlength n = (if n = 0 then 0 else Suc (bitlength (n div 2)))"

declare bitlength.simps [simp del]

text \<open>The integer nearest to \<open>p / q\<close>, the even one of the two when \<open>p / q\<close> is halfway.\<close>

definition rne_div :: "nat \<Rightarrow> nat \<Rightarrow> nat" where
  "rne_div p q =
     (let n = p div q; r = p mod q
      in if 2 * r < q then n
         else if q < 2 * r then n + 1
         else if even n then n else n + 1)"

text \<open>
  \<open>round_rat s p q\<close> is the float64 nearest to the rational \<open>p / q\<close> (\<open>0 < q\<close>) with
  sign \<open>s\<close> (True is negative): \<open>norm_exp\<close> chooses the exponent so that the
  significand has 53 bits, but never below the subnormal exponent; \<open>pack\<close> moves a
  significand that has rounded up to \<open>2 ^ 53\<close> to the next exponent and lets a value
  beyond the largest finite one overflow to infinity.
\<close>

definition norm_exp :: "nat \<Rightarrow> nat \<Rightarrow> int" where
  "norm_exp p q =
     (let e0 = int (bitlength p) - int (bitlength q) - 53;
          e1 = (if 2 ^ 53 * (q * 2 ^ nat e0) \<le> p * 2 ^ nat (- e0) then e0 + 1 else e0)
      in max e1 (- 1074))"

definition pack :: "bool \<Rightarrow> nat \<Rightarrow> int \<Rightarrow> float64" where
  "pack s m e =
     (if m = 2 ^ 53 then (if 971 < e + 1 then Inf s else Fin s (2 ^ 52) (e + 1))
      else if 971 < e then Inf s
      else Fin s m e)"

definition round_rat :: "bool \<Rightarrow> nat \<Rightarrow> nat \<Rightarrow> float64" where
  "round_rat s p q =
     (if p = 0 then Fin s 0 (- 1074)
      else
        let e = norm_exp p q;
            m = rne_div (p * 2 ^ nat (- e)) (q * 2 ^ nat e)
        in pack s m e)"

text \<open>Go's conversion \<open>float64(n)\<close> of an \<open>int\<close> (64 bits, two's complement).\<close>

definition float64_of_int :: "go_int \<Rightarrow> float64" where
  "float64_of_int n = round_rat (sint n < 0) (nat \<bar>sint n\<bar>) 1"

text \<open>Go's \<open>x * y\<close> on float64.\<close>

fun fmul :: "float64 \<Rightarrow> float64 \<Rightarrow> float64" where
  "fmul NaN _ = NaN"
| "fmul _ NaN = NaN"
| "fmul (Inf s) (Inf t) = Inf (s \<noteq> t)"
| "fmul (Inf s) (Fin t m e) = (if m = 0 then NaN else Inf (s \<noteq> t))"
| "fmul (Fin s m e) (Inf t) = (if m = 0 then NaN else Inf (s \<noteq> t))"
| "fmul (Fin s m e) (Fin t n f) =
     round_rat (s \<noteq> t) (m * n * 2 ^ nat (e + f)) (2 ^ nat (- (e + f)))"

text \<open>Go's \<open>x / y\<close> on float64: no panic, division by zero gives an infinity or NaN.\<close>

fun fdiv :: "float64 \<Rightarrow> float64 \<Rightarrow> float64" where
  "fdiv NaN _ = NaN"
| "fdiv _ NaN = NaN"
| "fdiv (Inf s) (Inf t) = NaN"
| "fdiv (Inf s) (Fin t n f) = Inf (s \<noteq> t)"
| "fdiv (Fin s m e) (Inf t) = Fin (s \<noteq> t) 0 (- 1074)"
| "fdiv (Fin s m e) (Fin t n f) =
     (if n = 0 then (if m = 0 then NaN else Inf (s \<noteq> t))
      else round_rat (s \<noteq> t) (m * 2 ^ nat (e - f)) (n * 2 ^ nat (f - e)))"

text \<open>
  Go's \<open>x + y\<close> on float64. An exact sum of zero is positive, unless both operands are
  negative (zeros).
\<close>

definition signed :: "bool \<Rightarrow> nat \<Rightarrow> int" where
  "signed s m = (if s then - int m else int m)"

fun fadd :: "float64 \<Rightarrow> float64 \<Rightarrow> float64" where
  "fadd NaN _ = NaN"
| "fadd _ NaN = NaN"
| "fadd (Inf s) (Inf t) = (if s = t then Inf s else NaN)"
| "fadd (Inf s) (Fin t n f) = Inf s"
| "fadd (Fin s m e) (Inf t) = Inf t"
| "fadd (Fin s m e) (Fin t n f) =
     (let g = min e f;
          v = signed s (m * 2 ^ nat (e - g)) + signed t (n * 2 ^ nat (f - g))
      in if v = 0 then Fin (s \<and> t) 0 (- 1074)
         else round_rat (v < 0) (nat \<bar>v\<bar> * 2 ^ nat g) (2 ^ nat (- g)))"

text \<open>Go's \<open>x == y\<close> on float64: NaN equals nothing, the two zeros are equal.\<close>

fun feq :: "float64 \<Rightarrow> float64 \<Rightarrow> bool" where
  "feq NaN _ = False"
| "feq _ NaN = False"
| "feq (Fin s m e) (Fin t n f) = (m = 0 \<and> n = 0 \<or> s = t \<and> m = n \<and> e = f)"
| "feq x y = (x = y)"

text \<open>Go's \<open>x < y\<close> on float64: false as soon as one side is NaN.\<close>

definition fval :: "bool \<Rightarrow> nat \<Rightarrow> int \<Rightarrow> int \<Rightarrow> int" where
  \<comment> \<open>the finite value \<open>\<plusminus> m * 2 ^ e\<close> as an integer multiple of \<open>2 ^ g\<close>, for \<open>g \<le> e\<close>\<close>
  "fval s m e g = signed s (m * 2 ^ nat (e - g))"

fun flt :: "float64 \<Rightarrow> float64 \<Rightarrow> bool" where
  "flt NaN _ = False"
| "flt _ NaN = False"
| "flt (Inf s) (Inf t) = (s \<and> \<not> t)"
| "flt (Inf s) (Fin t n f) = s"
| "flt (Fin s m e) (Inf t) = (\<not> t)"
| "flt (Fin s m e) (Fin t n f) = (fval s m e (min e f) < fval t n f (min e f))"

text \<open>An untyped Go constant with decimal value \<open>p / q\<close>, converted to float64.\<close>

definition const64 :: "nat \<Rightarrow> nat \<Rightarrow> float64" where
  "const64 p q = round_rat False p q"

section \<open>Package ftracker\<close>

subsection \<open>Main constants\<close>

definition lenStep :: float64 where "lenStep = const64 65 100"
definition mInKm :: float64 where "mInKm = const64 1000 1"
definition minInH :: float64 where "minInH = const64 60 1"
definition kmhInMsec :: float64 where "kmhInMsec = const64 278 1000"
definition cmInM :: float64 where "cmInM = const64 100 1"

subsection \<open>distance and meanSpeed\<close>

definition distance :: "go_int \<Rightarrow> float64" where
  "distance action = fdiv (fmul (float64_of_int action) lenStep) mInKm"

definition meanSpeed :: "go_int \<Rightarrow> float64 \<Rightarrow> float64" where
  "meanSpeed action duration =
     (if feq duration (const64 0 1) then const64 0 1
      else fdiv (distance action) duration)"

subsection \<open>The part of Go's math package that the program calls\<close>

text \<open>
  \<open>math.Ldexp(frac, exp)\<close> is \<open>frac * 2 ^ exp\<close>, rounded once; zeros, infinities and NaN
  are returned as they are.
\<close>

fun Ldexp :: "float64 \<Rightarrow> int \<Rightarrow> float64" where
  "Ldexp (Fin s m e) k = round_rat s (m * 2 ^ nat (e + k)) (2 ^ nat (- (e + k)))"
| "Ldexp x k = x"

text \<open>
  \<open>math.Pow(x, 2)\<close>, the only call of \<open>math.Pow\<close> in the package, following the cases
  of Go's implementation in their order: \<open>x == 1\<close> gives 1; NaN gives NaN; a zero gives
  \<open>+0\<close> (2 is not odd); an infinity gives \<open>+Inf\<close>; otherwise \<open>x\<close> is split by
  \<open>math.Frexp\<close> into a fraction \<open>x1\<close> in \<open>[1/2, 1)\<close> and an exponent \<open>xe\<close>, the loop
  over the bits of the exponent 2 squares \<open>x1\<close> (renormalising it when it falls below
  \<open>1/2\<close>) and multiplies the accumulator 1 by it, and \<open>math.Ldexp\<close> puts the exponent
  back.
\<close>

definition Pow2 :: "float64 \<Rightarrow> float64" where
  "Pow2 x =
     (case x of
        NaN \<Rightarrow> NaN
      | Inf s \<Rightarrow> Inf False
      | Fin s m e \<Rightarrow>
          if feq x (const64 1 1) then const64 1 1
          else if m = 0 then const64 0 1
          else
            let x1 = round_rat s m (2 ^ bitlength m);
                xe = e + int (bitlength m);
                x1' = fmul x1 x1;
                xe' = 2 * xe;
                x1'' = (if flt x1' (const64 5 10) then fadd x1' x1' else x1');
                xe'' = (if flt x1' (const64 5 10) then xe' - 1 else xe');
                a1 = fmul (const64 1 1) x1''
            in Ldexp a1 xe'')"

subsection \<open>The part of Go's fmt package that the program calls\<close>

text \<open>
  The verb \<open>%.2f\<close> prints NaN as \<open>NaN\<close>, the infinities as \<open>+Inf\<close> and \<open>-Inf\<close>, and a
  finite value by its exact decimal expansion rounded to two places, ties to even, with a
  minus sign whenever the sign bit is set (so \<open>-0.00\<close> is possible).
\<close>

definition digit_char :: "nat \<Rightarrow> char" where
  "digit_char d = ''0123456789'' ! d"

fun decimal :: "nat \<Rightarrow> string" where
  "decimal n = (if n < 10 then [digit_char n] else decimal (n div 10) @ [digit_char (n mod 10)])"

declare decimal.simps [simp del]

definition fmt_f2 :: "float64 \<Rightarrow> string" where
  "fmt_f2 x =
     (case x of
        NaN \<Rightarrow> ''NaN''
      | Inf s \<Rightarrow> (if s then ''-Inf'' else ''+Inf'')
      | Fin s m e \<Rightarrow>
          let c = rne_div (m * 100 * 2 ^ nat e) (2 ^ nat (- e))
          in (if s then ''-'' else []) @ decimal (c div 100) @ ''.'' @
             [digit_char (c mod 100 div 10), digit_char (c mod 10)])"

text \<open>
  The string literals of the program are UTF-8 encoded Cyrillic text; a Go string is its
  bytes. \<open>str_running\<close>, \<open>str_walking\<close> and \<open>str_swimming\<close> are the three training
  types the dispatcher compares with, \<open>str_unknown\<close> is its default result, and the
  \<open>tpl\<close> strings are the pieces of the format string between its five verbs.
\<close>

definition str_running :: string where
  "str_running =
     [CHR 0xD0, CHR 0x91, CHR 0xD0, CHR 0xB5, CHR 0xD0, CHR 0xB3]"

definition str_walking :: string where
  "str_walking =
     [CHR 0xD0, CHR 0xA5, CHR 0xD0, CHR 0xBE, CHR 0xD0, CHR 0xB4, CHR 0xD1, CHR 0x8C,
      CHR 0xD0, CHR 0xB1, CHR 0xD0, CHR 0xB0]"

definition str_swimming :: string where
  "str_swimming =
     [CHR 0xD0, CHR 0x9F, CHR 0xD0, CHR 0xBB, CHR 0xD0, CHR 0xB0, CHR 0xD0, CHR 0xB2,
      CHR 0xD0, CHR 0xB0, CHR 0xD0, CHR 0xBD, CHR 0xD0, CHR 0xB8, CHR 0xD0, CHR 0xB5]"

definition str_unknown :: string where
  "str_unknown =
     [CHR 0xD0, CHR 0xBD, CHR 0xD0, CHR 0xB5, CHR 0xD0, CHR 0xB8, CHR 0xD0, CHR 0xB7,
      CHR 0xD0, CHR 0xB2, CHR 0xD0, CHR 0xB5, CHR 0xD1, CHR 0x81, CHR 0xD1, CHR 0x82,
      CHR 0xD0, CHR 0xBD, CHR 0xD1, CHR 0x8B, CHR 0xD0, CHR 0xB9, CHR 0x20, CHR 0xD1,
      CHR 0x82, CHR 0xD0, CHR 0xB8, CHR 0xD0, CHR 0xBF, CHR 0x20, CHR 0xD1, CHR 0x82,
      CHR 0xD1, CHR 0x80, CHR 0xD0, CHR 0xB5, CHR 0xD0, CHR 0xBD, CHR 0xD0, CHR 0xB8,
      CHR 0xD1, CHR 0x80, CHR 0xD0, CHR 0xBE, CHR 0xD0, CHR 0xB2, CHR 0xD0, CHR 0xBA,
      CHR 0xD0, CHR 0xB8]"

definition tpl_type :: string where
  "tpl_type =
     [CHR 0xD0, CHR 0xA2, CHR 0xD0, CHR 0xB8, CHR 0xD0, CHR 0xBF, CHR 0x20, CHR 0xD1,
      CHR 0x82, CHR 0xD1, CHR 0x80, CHR 0xD0, CHR 0xB5, CHR 0xD0, CHR 0xBD, CHR 0xD0,
      CHR 0xB8, CHR 0xD1, CHR 0x80, CHR 0xD0, CHR 0xBE, CHR 0xD0, CHR 0xB2, CHR 0xD0,
      CHR 0xBA, CHR 0xD0, CHR 0xB8, CHR 0x3A, CHR 0x20]"

definition tpl_duration :: string where
  "tpl_duration =
     [CHR 0x0A, CHR 0xD0, CHR 0x94, CHR 0xD0, CHR 0xBB, CHR 0xD0, CHR 0xB8, CHR 0xD1,
      CHR 0x82, CHR 0xD0, CHR 0xB5, CHR 0xD0, CHR 0xBB, CHR 0xD1, CHR 0x8C, CHR 0xD0,
      CHR 0xBD, CHR 0xD0, CHR 0xBE, CHR 0xD1, CHR 0x81, CHR 0xD1, CHR 0x82, CHR 0xD1,
      CHR 0x8C, CHR 0x3A, CHR 0x20]"

definition tpl_distance :: string where
  "tpl_distance =
     [CHR 0x20, CHR 0xD1, CHR 0x87, CHR 0x2E, CHR 0x0A, CHR 0xD0, CHR 0x94, CHR 0xD0,
      CHR 0xB8, CHR 0xD1, CHR 0x81, CHR 0xD1, CHR 0x82, CHR 0xD0, CHR 0xB0, CHR 0xD0,
      CHR 0xBD, CHR 0xD1, CHR 0x86, CHR 0xD0, CHR 0xB8, CHR 0xD1, CHR 0x8F, CHR 0x3A,
      CHR 0x20]"

definition tpl_speed :: string where
  "tpl_speed =
     [CHR 0x20, CHR 0xD0, CHR 0xBA, CHR 0xD0, CHR 0xBC, CHR 0x2E, CHR 0x0A, CHR 0xD0,
      CHR 0xA1, CHR 0xD0, CHR 0xBA, CHR 0xD0, CHR 0xBE, CHR 0xD1, CHR 0x80, CHR 0xD0,
      CHR 0xBE, CHR 0xD1, CHR 0x81, CHR 0xD1, CHR 0x82, CHR 0xD1, CHR 0x8C, CHR 0x3A,
      CHR 0x20]"

definition tpl_calories :: string where
  "tpl_calories =
     [CHR 0x20, CHR 0xD0, CHR 0xBA, CHR 0xD0, CHR 0xBC, CHR 0x2F, CHR 0xD1, CHR 0x87,
      CHR 0x0A, CHR 0xD0, CHR 0xA1, CHR 0xD0, CHR 0xBE, CHR 0xD0, CHR 0xB6, CHR 0xD0,
      CHR 0xB3, CHR 0xD0, CHR 0xBB, CHR 0xD0, CHR 0xB8, CHR 0x20, CHR 0xD0, CHR 0xBA,
      CHR 0xD0, CHR 0xB0, CHR 0xD0, CHR 0xBB, CHR 0xD0, CHR 0xBE, CHR 0xD1, CHR 0x80,
      CHR 0xD0, CHR 0xB8, CHR 0xD0, CHR 0xB9, CHR 0x3A, CHR 0x20]"

definition tpl_end :: string where
  "tpl_end =
     [CHR 0x0A]"

text \<open>
  \<open>fmt.Sprintf\<close> with the format string of the program: \<open>%s\<close> copies the training
  type, each \<open>%.2f\<close> prints one float64.
\<close>

definition Sprintf :: "string \<Rightarrow> float64 \<Rightarrow> float64 \<Rightarrow> float64 \<Rightarrow> float64 \<Rightarrow> string" where
  "Sprintf trainingType duration dst speed calories =
     tpl_type @ trainingType @ tpl_duration @ fmt_f2 duration @ tpl_distance @ fmt_f2 dst @
     tpl_speed @ fmt_f2 speed @ tpl_calories @ fmt_f2 calories @ tpl_end"

subsection \<open>Calories: src/ftracker.go\<close>

definition runningCaloriesMeanSpeedMultiplier :: float64 where
  "runningCaloriesMeanSpeedMultiplier = const64 18 1"

definition runningCaloriesMeanSpeedShift :: float64 where
  "runningCaloriesMeanSpeedShift = const64 179 100"

definition RunningSpentCalories :: "go_int \<Rightarrow> float64 \<Rightarrow> float64 \<Rightarrow> float64" where
  "RunningSpentCalories action weight duration =
     fmul (fmul (fdiv (fmul (fmul (fmul runningCaloriesMeanSpeedMultiplier
       (meanSpeed action duration)) runningCaloriesMeanSpeedShift) weight) mInKm) duration) minInH"

definition walkingCaloriesWeightMultiplier :: float64 where
  "walkingCaloriesWeightMultiplier = const64 35 1000"

definition walkingSpeedHeightMultiplier :: float64 where
  "walkingSpeedHeightMultiplier = const64 29 1000"

definition WalkingSpentCalories :: "go_int \<Rightarrow> float64 \<Rightarrow> float64 \<Rightarrow> float64 \<Rightarrow> float64" where
  "WalkingSpentCalories action duration weight height =
     fmul (fmul (fadd (fmul walkingCaloriesWeightMultiplier weight)
       (fmul (fmul (fdiv (Pow2 (fmul (meanSpeed action duration) kmhInMsec)) (fdiv height cmInM))
          walkingSpeedHeightMultiplier) weight)) duration) minInH"

definition swimmingCaloriesMeanSpeedShift :: float64 where
  "swimmingCaloriesMeanSpeedShift = const64 11 10"

definition swimmingCaloriesWeightMultiplier :: float64 where
  "swimmingCaloriesWeightMultiplier = const64 2 1"

definition swimmingMeanSpeed :: "go_int \<Rightarrow> go_int \<Rightarrow> float64 \<Rightarrow> float64" where
  "swimmingMeanSpeed lengthPool countPool duration =
     (if feq duration (const64 0 1) then const64 0 1
      else fdiv (fdiv (fmul (float64_of_int lengthPool) (float64_of_int countPool)) mInKm) duration)"

definition SwimmingSpentCalories :: "go_int \<Rightarrow> go_int \<Rightarrow> float64 \<Rightarrow> float64 \<Rightarrow> float64" where
  "SwimmingSpentCalories lengthPool countPool duration weight =
     fmul (fmul (fmul (fadd (swimmingMeanSpeed lengthPool countPool duration)
       swimmingCaloriesMeanSpeedShift) swimmingCaloriesWeightMultiplier) weight) duration"

subsection \<open>The dispatcher: src/ftracker.go\<close>

definition ShowTrainingInfo ::
  "go_int \<Rightarrow> string \<Rightarrow> float64 \<Rightarrow> float64 \<Rightarrow> float64 \<Rightarrow> go_int \<Rightarrow> go_int \<Rightarrow> string" where
  "ShowTrainingInfo action trainingType duration weight height lengthPool countPool =
     (if trainingType = str_running then
        (let dst = distance action;
             speed = meanSpeed action duration;
             calories = RunningSpentCalories action weight duration
         in Sprintf trainingType duration dst speed calories)
      else if trainingType = str_walking then
        (let dst = distance action;
             speed = meanSpeed action duration;
             calories = WalkingSpentCalories action duration weight height
         in Sprintf trainingType duration dst speed calories)
      else if trainingType = str_swimming then
        (let dst = distance action;
             speed = swimmingMeanSpeed lengthPool countPool duration;
             calories = SwimmingSpentCalories lengthPool countPool duration weight
         in Sprintf trainingType duration dst speed calories)
      else str_unknown)"

subsection \<open>The second version: src/unnamed/part_000\<close>

text \<open>
  The constants, \<open>distance\<close>, \<open>meanSpeed\<close> and \<open>swimmingMeanSpeed\<close> of this file are
  the same text as in src/ftracker.go and are shared. Its three calorie functions take
  the speed as a parameter, and its dispatcher passes the speed it has computed.
\<close>

definition RunningSpentCalories_part0 :: "float64 \<Rightarrow> float64 \<Rightarrow> float64 \<Rightarrow> float64" where
  "RunningSpentCalories_part0 weight duration speed =
     fmul (fmul (fdiv (fmul (fmul (fmul runningCaloriesMeanSpeedMultiplier speed)
       runningCaloriesMeanSpeedShift) weight) mInKm) duration) minInH"

definition WalkingSpentCalories_part0 :: "float64 \<Rightarrow> float64 \<Rightarrow> float64 \<Rightarrow> float64 \<Rightarrow> float64" where
  "WalkingSpentCalories_part0 duration weight height speed =
     fmul (fmul (fadd (fmul walkingCaloriesWeightMultiplier weight)
       (fmul (fmul (fdiv (Pow2 (fmul speed kmhInMsec)) (fdiv height (const64 100 1)))
          (const64 29 1000)) weight)) duration) minInH"

definition SwimmingSpentCalories_part0 :: "float64 \<Rightarrow> float64 \<Rightarrow> float64 \<Rightarrow> float64" where
  "SwimmingSpentCalories_part0 duration weight speed =
     fmul (fmul (fmul (fadd speed swimmingCaloriesMeanSpeedShift)
       swimmingCaloriesWeightMultiplier) weight) duration"

definition ShowTrainingInfo_part0 ::
  "go_int \<Rightarrow> string \<Rightarrow> float64 \<Rightarrow> float64 \<Rightarrow> float64 \<Rightarrow> go_int \<Rightarrow> go_int \<Rightarrow> string" where
  "ShowTrainingInfo_part0 action trainingType duration weight height lengthPool countPool =
     (if trainingType = str_running then
        (let dst = distance action;
             speed = meanSpeed action duration;
             calories = RunningSpentCalories_part0 weight duration speed
         in Sprintf trainingType duration dst speed calories)
      else if trainingType = str_walking then
        (let dst = distance action;
             speed = meanSpeed action duration;
             calories = WalkingSpentCalories_part0 duration weight height speed
         in Sprintf trainingType duration dst speed calories)
      else if trainingType = str_swimming then
        (let dst = distance action;
             speed = swimmingMeanSpeed lengthPool countPool duration;
             calories = SwimmingSpentCalories_part0 duration weight speed
         in Sprintf trainingType duration dst speed calories)
      else str_unknown)"

subsection \<open>Values that are not numbers\<close>

text \<open>Go's \<open>math.IsNaN(x) || math.IsInf(x, 0)\<close>.\<close>

fun not_finite :: "float64 \<Rightarrow> bool" where
  "not_finite (Fin s m e) = False"
| "not_finite x = True"

text \<open>The real number that a finite float64 stands for (0 for the others).\<close>

fun valof :: "float64 \<Rightarrow> real" where
  "valof (Fin s m e) = (if s then - 1 else 1) * real m * 2 powi e"
| "valof x = 0"

section \<open>Evaluation on numerals\<close>

text \<open>
  The number of bits of a numeral follows its binary digits, so closed float64 terms
  are evaluated by the simplifier.
\<close>

lemma bitlength_numeral [simp]:
  "bitlength 0 = 0"
  "bitlength 1 = 1"
  "bitlength (Suc 0) = 1"
  "bitlength (numeral Num.One) = 1"
  "bitlength (numeral (Num.Bit0 n)) = bitlength (numeral n) + 1"
  "bitlength (numeral (Num.Bit1 n)) = bitlength (numeral n) + 1"
proof -
  show "bitlength 0 = 0" by (simp add: bitlength.simps)
  show one: "bitlength 1 = 1" by (simp add: bitlength.simps)
  show "bitlength (Suc 0) = 1" using one by simp
  show "bitlength (numeral Num.One) = 1" using one by simp
  show "bitlength (numeral (Num.Bit0 n)) = bitlength (numeral n) + 1"
    by (subst bitlength.simps) simp
  show "bitlength (numeral (Num.Bit1 n)) = bitlength (numeral n) + 1"
    by (subst bitlength.simps) simp
qed

lemmas round_defs = const64_def round_rat_def rne_div_def norm_exp_def pack_def Let_def

lemmas label_defs = str_running_def str_walking_def str_swimming_def str_unknown_def

lemma float64_of_int_numeral:
  "float64_of_int 0 = const64 0 1"
  "float64_of_int 3 = const64 3 1"
  "float64_of_int 20 = const64 20 1"
  "float64_of_int 25 = const64 25 1"
  "float64_of_int 1000 = const64 1000 1"
  by (simp_all add: float64_of_int_def const64_def)

lemma zero64:
  "const64 0 1 = Fin False 0 (- 1074)"
  "const64 0 (Suc 0) = Fin False 0 (- 1074)"
  by (simp_all add: round_defs)

lemma one64:
  "const64 1 1 = Fin False 4503599627370496 (- 52)"
  "const64 (Suc 0) (Suc 0) = Fin False 4503599627370496 (- 52)"
  by (simp_all add: round_defs)

lemma lenStep_bits: "const64 65 100 = Fin False 5854679515581645 (- 53)"
  by (simp add: round_defs)

lemma mInKm_bits:
  "const64 1000 1 = Fin False 8796093022208000 (- 43)"
  "const64 1000 (Suc 0) = Fin False 8796093022208000 (- 43)"
  by (simp_all add: round_defs)

lemma distance_1000: "distance 1000 = Fin False 5854679515581645 (- 53)"
  by (simp add: distance_def float64_of_int_numeral lenStep_def mInKm_def lenStep_bits mInKm_bits)
     (simp add: round_defs)

lemma meanSpeed_1000_1: "meanSpeed 1000 (const64 1 1) = Fin False 5854679515581645 (- 53)"
  by (simp add: meanSpeed_def distance_1000 one64 zero64) (simp add: round_defs)

section \<open>The claims\<close>

text \<open>
  C3. When the duration is zero, of either sign, both mean-speed functions return (positive)
  zero: the division is not reached, and the zero is an ordinary return value.
\<close>

theorem mean_speeds_zero_duration:
  "meanSpeed action (Fin s 0 e) = const64 0 1 \<and>
   swimmingMeanSpeed lengthPool countPool (Fin s 0 e) = const64 0 1 \<and>
   const64 0 1 = Fin False 0 (- 1074)"
  by (simp add: meanSpeed_def swimmingMeanSpeed_def zero64)

text \<open>
  C4. Whatever the numeric parameters, a training type that is none of the three the
  dispatcher knows gives the fixed string \<open>str_unknown\<close>, which holds no decimal digit:
  an ordinary return value.
\<close>

theorem unknown_label_fallback:
  "trainingType \<notin> {str_running, str_walking, str_swimming} \<Longrightarrow>
   ShowTrainingInfo action trainingType duration weight height lengthPool countPool = str_unknown
   \<and> set str_unknown \<inter> set ''0123456789'' = {}"
  by (simp add: ShowTrainingInfo_def) (simp add: str_unknown_def)

theorem unknown_label_fallback_witness:
  "''unknown-type'' \<notin> {str_running, str_walking, str_swimming} \<and>
   ShowTrainingInfo 1000 ''unknown-type'' (const64 1 1) (const64 70 1) (const64 170 1) 25 20
     = str_unknown \<and>
   ShowTrainingInfo 0 ''unknown-type'' NaN (Inf True) (const64 0 1) (- 1) 7 = str_unknown"
proof -
  have l: "''unknown-type'' \<notin> {str_running, str_walking, str_swimming}"
    by (simp add: label_defs)
  show ?thesis
    using l unknown_label_fallback [OF l, of 1000 "const64 1 1" "const64 70 1" "const64 170 1" 25 20]
      unknown_label_fallback [OF l, of 0 NaN "Inf True" "const64 0 1" "- 1" 7]
    by simp
qed

text \<open>
  The three training types are the Cyrillic literals of the source; their English names
  are training types like any other unknown one.
\<close>

lemma english_names_are_unknown:
  "ShowTrainingInfo action ''running'' duration weight height lengthPool countPool = str_unknown"
  "ShowTrainingInfo action ''walking'' duration weight height lengthPool countPool = str_unknown"
  "ShowTrainingInfo action ''swimming'' duration weight height lengthPool countPool = str_unknown"
  by (simp_all add: ShowTrainingInfo_def label_defs)

text \<open>
  C8. For every action count, \<open>distance\<close> is the count times 0.65 divided by 1000, each
  operation rounded; so \<open>distance 0\<close> is 0, \<open>distance 1000\<close> is the float64 0.65, and
  the mean speed of 1000 steps in one hour is the float64 0.65.
\<close>

theorem distance_formula:
  "distance action = fdiv (fmul (float64_of_int action) (const64 65 100)) (const64 1000 1) \<and>
   distance 0 = const64 0 1 \<and>
   distance 1000 = const64 65 100 \<and>
   meanSpeed 1000 (const64 1 1) = const64 65 100"
proof -
  have formula: "distance action =
      fdiv (fmul (float64_of_int action) (const64 65 100)) (const64 1000 1)"
    by (simp add: distance_def lenStep_def mInKm_def)
  have at_0: "distance 0 = const64 0 1"
    unfolding distance_def lenStep_def mInKm_def float64_of_int_numeral lenStep_bits
      mInKm_bits zero64
    by (simp add: round_defs)
  have at_1000: "distance 1000 = const64 65 100"
    by (simp add: distance_1000 lenStep_bits)
  have speed: "meanSpeed 1000 (const64 1 1) = const64 65 100"
    using meanSpeed_1000_1 by (simp add: lenStep_bits)
  from formula at_0 at_1000 speed show ?thesis
    by (intro conjI)
qed

text \<open>
  C10. The two versions of the dispatcher return the same string on every input: passing
  the computed speed to the calorie functions, as src/unnamed/part_000 does, gives what
  recomputing it inside them, as src/ftracker.go does, gives.
\<close>

theorem ShowTrainingInfo_versions_agree:
  "ShowTrainingInfo action trainingType duration weight height lengthPool countPool =
   ShowTrainingInfo_part0 action trainingType duration weight height lengthPool countPool"
  by (simp add: ShowTrainingInfo_def ShowTrainingInfo_part0_def RunningSpentCalories_def
      RunningSpentCalories_part0_def WalkingSpentCalories_def WalkingSpentCalories_part0_def
      SwimmingSpentCalories_def SwimmingSpentCalories_part0_def cmInM_def
      walkingSpeedHeightMultiplier_def Let_def)

lemma more_consts:
  "const64 70 1 = Fin False 4925812092436480 (- 46)"
  "const64 70 (Suc 0) = Fin False 4925812092436480 (- 46)"
  "const64 60 1 = Fin False 8444249301319680 (- 47)"
  "const64 60 (Suc 0) = Fin False 8444249301319680 (- 47)"
  "const64 18 1 = Fin False 5066549580791808 (- 48)"
  "const64 18 (Suc 0) = Fin False 5066549580791808 (- 48)"
  "const64 179 100 = Fin False 8061443332993188 (- 52)"
  "const64 11 10 = Fin False 4953959590107546 (- 52)"
  "const64 2 1 = Fin False 4503599627370496 (- 51)"
  "const64 2 (Suc 0) = Fin False 4503599627370496 (- 51)"
  "const64 1 2 = Fin False 4503599627370496 (- 53)"
  "const64 (Suc 0) 2 = Fin False 4503599627370496 (- 53)"
  "const64 224 1 = Fin False 7881299347898368 (- 45)"
  "const64 224 (Suc 0) = Fin False 7881299347898368 (- 45)"
  "const64 20 1 = Fin False 5629499534213120 (- 48)"
  "const64 20 (Suc 0) = Fin False 5629499534213120 (- 48)"
  "const64 25 1 = Fin False 7036874417766400 (- 48)"
  "const64 25 (Suc 0) = Fin False 7036874417766400 (- 48)"
  "const64 879606 10000 = Fin False 6189676959113832 (- 46)"
  "const64 88 1 = Fin False 6192449487634432 (- 46)"
  "const64 88 (Suc 0) = Fin False 6192449487634432 (- 46)"
  by (simp_all add: round_defs)

lemma swimmingMeanSpeed_25_20_1:
  "swimmingMeanSpeed 25 20 (const64 1 1) = Fin False 4503599627370496 (- 53)"
  unfolding swimmingMeanSpeed_def mInKm_def float64_of_int_numeral more_consts mInKm_bits
    one64 zero64
  by (simp add: round_defs)

lemma SwimmingSpentCalories_25_20_1_70:
  "SwimmingSpentCalories 25 20 (const64 1 1) (const64 70 1) = Fin False 7881299347898368 (- 45)"
  unfolding SwimmingSpentCalories_def swimmingMeanSpeed_25_20_1
  unfolding swimmingCaloriesMeanSpeedShift_def swimmingCaloriesWeightMultiplier_def more_consts one64
  by (simp add: round_defs signed_def)

lemma RunningSpentCalories_1000_70_1:
  "RunningSpentCalories 1000 (const64 70 1) (const64 1 1) = Fin False 6189676959113832 (- 46)"
  unfolding RunningSpentCalories_def meanSpeed_1000_1
  unfolding runningCaloriesMeanSpeedMultiplier_def
    runningCaloriesMeanSpeedShift_def mInKm_def minInH_def more_consts mInKm_bits one64
  by (simp add: round_defs)

lemma running_literal:
  "fmul (fmul (fdiv (fmul (fmul (fmul (const64 18 1) (const64 65 100)) (const64 179 100))
      (const64 70 1)) (const64 1000 1)) (const64 1 1)) (const64 60 1)
   = Fin False 6189676959113832 (- 46)"
  unfolding more_consts mInKm_bits one64 lenStep_bits
  by (simp add: round_defs)

lemma fmt_8796: "fmt_f2 (Fin False 6189676959113832 (- 46)) = ''87.96''"
  by (simp add: fmt_f2_def rne_div_def Let_def decimal.simps digit_char_def)

lemma flt_88: "flt (Fin False 6189676959113832 (- 46)) (Fin False 6192449487634432 (- 46))"
  by (simp add: fval_def signed_def)

lemma fmt_f2_values:
  "fmt_f2 (Fin False 4503599627370496 (- 52)) = ''1.00''"
  "fmt_f2 (Fin False 5854679515581645 (- 53)) = ''0.65''"
  "fmt_f2 (Fin False 4503599627370496 (- 53)) = ''0.50''"
  "fmt_f2 (Fin False 7881299347898368 (- 45)) = ''224.00''"
  by (simp_all add: fmt_f2_def rne_div_def Let_def decimal.simps digit_char_def)

text \<open>
  C7. \<open>SwimmingSpentCalories\<close> is the mean swimming speed plus 1.1, times 2, times the
  weight, times the duration; for a duration that is not zero the mean swimming speed is
  pool length times lap count, divided by 1000, divided by the duration; and 20 laps of a
  25 m pool in one hour at 70 kg give a speed of exactly 0.5 and exactly 224 calories.
\<close>

theorem swimming_calories_formula:
  "SwimmingSpentCalories lengthPool countPool duration weight =
     fmul (fmul (fmul (fadd (swimmingMeanSpeed lengthPool countPool duration) (const64 11 10))
       (const64 2 1)) weight) duration \<and>
   (\<not> feq duration (const64 0 1) \<longrightarrow>
      swimmingMeanSpeed lengthPool countPool duration =
        fdiv (fdiv (fmul (float64_of_int lengthPool) (float64_of_int countPool))
          (const64 1000 1)) duration) \<and>
   swimmingMeanSpeed 25 20 (const64 1 1) = const64 1 2 \<and>
   SwimmingSpentCalories 25 20 (const64 1 1) (const64 70 1) = const64 224 1"
proof -
  have formula: "SwimmingSpentCalories lengthPool countPool duration weight =
     fmul (fmul (fmul (fadd (swimmingMeanSpeed lengthPool countPool duration) (const64 11 10))
       (const64 2 1)) weight) duration"
    by (simp add: SwimmingSpentCalories_def swimmingCaloriesMeanSpeedShift_def
        swimmingCaloriesWeightMultiplier_def)
  have speed: "\<not> feq duration (const64 0 1) \<longrightarrow>
      swimmingMeanSpeed lengthPool countPool duration =
        fdiv (fdiv (fmul (float64_of_int lengthPool) (float64_of_int countPool))
          (const64 1000 1)) duration"
    by (simp add: swimmingMeanSpeed_def mInKm_def)
  have half: "swimmingMeanSpeed 25 20 (const64 1 1) = const64 1 2"
    using swimmingMeanSpeed_25_20_1 by (simp add: more_consts)
  have cal: "SwimmingSpentCalories 25 20 (const64 1 1) (const64 70 1) = const64 224 1"
    using SwimmingSpentCalories_25_20_1_70 by (simp add: more_consts)
  from formula speed half cal show ?thesis
    by (intro conjI)
qed

theorem swimming_calories_formula_witness:
  "\<not> feq (const64 3 2) (const64 0 1) \<and>
   swimmingMeanSpeed 25 20 (const64 3 2) =
     fdiv (fdiv (fmul (float64_of_int 25) (float64_of_int 20)) (const64 1000 1)) (const64 3 2)"
proof -
  have nz: "\<not> feq (const64 3 2) (const64 0 1)"
    by (simp add: round_defs)
  from swimming_calories_formula [of 25 20 "const64 3 2" "const64 70 1"] nz
  show ?thesis by blast
qed

text \<open>
  C5, as the code has it. \<open>RunningSpentCalories\<close> is 18 times the mean speed times 1.79,
  times the weight, divided by 1000, times the duration, times 60, each operation rounded;
  for 1000 steps, 70 kg and one hour it is the float64 evaluation of
  \<open>(18 * 0.65 * 1.79) * 70 / 1000 * 1 * 60\<close>, which is the float64 nearest to 87.9606 and
  prints as 87.96.
\<close>

theorem running_calories_formula:
  "RunningSpentCalories action weight duration =
     fmul (fmul (fdiv (fmul (fmul (fmul (const64 18 1) (meanSpeed action duration))
       (const64 179 100)) weight) (const64 1000 1)) duration) (const64 60 1) \<and>
   RunningSpentCalories 1000 (const64 70 1) (const64 1 1) =
     fmul (fmul (fdiv (fmul (fmul (fmul (const64 18 1) (const64 65 100)) (const64 179 100))
       (const64 70 1)) (const64 1000 1)) (const64 1 1)) (const64 60 1) \<and>
   RunningSpentCalories 1000 (const64 70 1) (const64 1 1) = const64 879606 10000 \<and>
   fmt_f2 (RunningSpentCalories 1000 (const64 70 1) (const64 1 1)) = ''87.96''"
proof -
  have formula: "RunningSpentCalories action weight duration =
     fmul (fmul (fdiv (fmul (fmul (fmul (const64 18 1) (meanSpeed action duration))
       (const64 179 100)) weight) (const64 1000 1)) duration) (const64 60 1)"
    by (simp add: RunningSpentCalories_def runningCaloriesMeanSpeedMultiplier_def
        runningCaloriesMeanSpeedShift_def mInKm_def minInH_def)
  have literal: "RunningSpentCalories 1000 (const64 70 1) (const64 1 1) =
     fmul (fmul (fdiv (fmul (fmul (fmul (const64 18 1) (const64 65 100)) (const64 179 100))
       (const64 70 1)) (const64 1000 1)) (const64 1 1)) (const64 60 1)"
    unfolding RunningSpentCalories_1000_70_1 by (simp only: running_literal)
  have val: "RunningSpentCalories 1000 (const64 70 1) (const64 1 1) = const64 879606 10000"
    unfolding RunningSpentCalories_1000_70_1 by (simp only: more_consts)
  have printed: "fmt_f2 (RunningSpentCalories 1000 (const64 70 1) (const64 1 1)) = ''87.96''"
    unfolding RunningSpentCalories_1000_70_1 by (simp only: fmt_8796)
  from formula literal val printed show ?thesis
    by (intro conjI)
qed

text \<open>
  C5, as the specification states it, fails: the calories of 1000 steps, 70 kg and one
  hour are below 88, and do not print as 88.07.
\<close>

theorem running_calories_not_88_07:
  "flt (RunningSpentCalories 1000 (const64 70 1) (const64 1 1)) (const64 88 1) \<and>
   fmt_f2 (RunningSpentCalories 1000 (const64 70 1) (const64 1 1)) \<noteq> ''88.07''"
  unfolding RunningSpentCalories_1000_70_1
  unfolding more_consts fmt_8796
  using flt_88 by simp

text \<open>
  C2. In the swimming branch the reported distance is the step formula, action count
  times 0.65 divided by 1000, whatever the pool, while the reported speed and calories
  are those of the pool length and lap count. For 1000 strokes and 20 laps of a 25 m pool
  in one hour the report shows 0.65 km, where the pool distance would print as 0.50.
\<close>

theorem swimming_report_uses_step_distance:
  "ShowTrainingInfo action str_swimming duration weight height lengthPool countPool =
     Sprintf str_swimming duration
       (fdiv (fmul (float64_of_int action) (const64 65 100)) (const64 1000 1))
       (swimmingMeanSpeed lengthPool countPool duration)
       (SwimmingSpentCalories lengthPool countPool duration weight) \<and>
   ShowTrainingInfo 1000 str_swimming (const64 1 1) (const64 70 1) (const64 170 1) 25 20 =
     tpl_type @ str_swimming @ tpl_duration @ ''1.00'' @ tpl_distance @ ''0.65'' @
     tpl_speed @ ''0.50'' @ tpl_calories @ ''224.00'' @ tpl_end \<and>
   fmt_f2 (fdiv (fmul (float64_of_int 25) (float64_of_int 20)) (const64 1000 1)) = ''0.50''"
proof -
  have general:
    "ShowTrainingInfo action str_swimming duration weight height lengthPool countPool =
     Sprintf str_swimming duration
       (fdiv (fmul (float64_of_int action) (const64 65 100)) (const64 1000 1))
       (swimmingMeanSpeed lengthPool countPool duration)
       (SwimmingSpentCalories lengthPool countPool duration weight)"
    by (simp add: ShowTrainingInfo_def label_defs distance_def lenStep_def mInKm_def)
  have branch:
    "ShowTrainingInfo 1000 str_swimming (const64 1 1) (const64 70 1) (const64 170 1) 25 20 =
     Sprintf str_swimming (const64 1 1) (distance 1000)
       (swimmingMeanSpeed 25 20 (const64 1 1))
       (SwimmingSpentCalories 25 20 (const64 1 1) (const64 70 1))"
    by (simp add: ShowTrainingInfo_def label_defs)
  have concrete:
    "ShowTrainingInfo 1000 str_swimming (const64 1 1) (const64 70 1) (const64 170 1) 25 20 =
     tpl_type @ str_swimming @ tpl_duration @ ''1.00'' @ tpl_distance @ ''0.65'' @
     tpl_speed @ ''0.50'' @ tpl_calories @ ''224.00'' @ tpl_end"
    unfolding branch Sprintf_def distance_1000 swimmingMeanSpeed_25_20_1
      SwimmingSpentCalories_25_20_1_70
    unfolding one64 fmt_f2_values
    by (rule refl)
  have "fdiv (fmul (float64_of_int 25) (float64_of_int 20)) (const64 1000 1) =
      Fin False 4503599627370496 (- 53)"
    unfolding float64_of_int_numeral more_consts mInKm_bits
    by (simp add: round_defs)
  then have pool: "fmt_f2 (fdiv (fmul (float64_of_int 25) (float64_of_int 20)) (const64 1000 1))
      = ''0.50''"
    by (simp only: fmt_f2_values)
  from general concrete pool show ?thesis
    by (intro conjI)
qed

lemma fdiv_zero_divisor: "not_finite (fdiv x (Fin s 0 e))"
  by (cases x) auto

lemma fmul_not_finite: "not_finite x \<Longrightarrow> not_finite (fmul x y)"
  by (cases x; cases y) auto

lemma fadd_not_finite: "not_finite y \<Longrightarrow> not_finite (fadd x y)"
  by (cases x; cases y) auto

lemma zero_height_in_metres: "fdiv (Fin s 0 (- 1074)) (const64 100 1) = Fin s 0 (- 1074)"
  by (simp add: round_defs)

lemma walking_consts:
  "const64 278 1000 = Fin False 5008002785635992 (- 54)"
  "const64 35 1000 = Fin False 5044031582654956 (- 57)"
  "const64 29 1000 = Fin False 8358680908399641 (- 58)"
  "const64 100 1 = Fin False 7036874417766400 (- 46)"
  "const64 100 (Suc 0) = Fin False 7036874417766400 (- 46)"
  by (simp_all add: round_defs)

lemma Pow2_speed: "Pow2 (fmul (Fin False 5854679515581645 (- 53)) (Fin False 5008002785635992 (- 54)))
   = Fin False 4705719737495005 (- 57)"
  by (simp add: Pow2_def round_defs fval_def signed_def)

lemma meanSpeed_0_1: "meanSpeed 0 (const64 1 1) = Fin False 0 (- 1074)"
  unfolding meanSpeed_def distance_def lenStep_def mInKm_def float64_of_int_numeral
  unfolding lenStep_bits mInKm_bits zero64 one64
  by (simp add: round_defs)

lemma Pow2_zero: "Pow2 (fmul (Fin False 0 (- 1074)) (Fin False 5008002785635992 (- 54)))
   = Fin False 0 (- 1074)"
  by (simp add: Pow2_def round_defs)

lemma WalkingSpentCalories_zero_height_inf:
  "WalkingSpentCalories 1000 (const64 1 1) (const64 70 1) (const64 0 1) = Inf False"
  unfolding WalkingSpentCalories_def meanSpeed_1000_1
  unfolding kmhInMsec_def walkingCaloriesWeightMultiplier_def walkingSpeedHeightMultiplier_def
    cmInM_def minInH_def walking_consts more_consts one64 zero64 Pow2_speed
  by (simp add: round_defs)

lemma WalkingSpentCalories_zero_height_nan:
  "WalkingSpentCalories 0 (const64 1 1) (const64 70 1) (const64 0 1) = NaN"
  unfolding WalkingSpentCalories_def meanSpeed_0_1
  unfolding kmhInMsec_def walkingCaloriesWeightMultiplier_def walkingSpeedHeightMultiplier_def
    cmInM_def minInH_def walking_consts more_consts one64 zero64 Pow2_zero
  by (simp add: round_defs)

lemma height_170:
  "const64 170 1 = Fin False 5981343255101440 (- 45)"
  "const64 170 (Suc 0) = Fin False 5981343255101440 (- 45)"
  by (simp_all add: round_defs)

lemma WalkingSpentCalories_1000_1_70_170:
  "WalkingSpentCalories 1000 (const64 1 1) (const64 70 1) (const64 170 1)
     = Fin False 5254414947751505 (- 45)"
  unfolding WalkingSpentCalories_def meanSpeed_1000_1
  unfolding kmhInMsec_def walkingCaloriesWeightMultiplier_def walkingSpeedHeightMultiplier_def
    cmInM_def minInH_def walking_consts more_consts one64 height_170 Pow2_speed
  by (simp add: round_defs signed_def)

lemma fmt_14934: "fmt_f2 (Fin False 5254414947751505 (- 45)) = ''149.34''"
  by (simp add: fmt_f2_def rne_div_def Let_def decimal.simps digit_char_def)

text \<open>
  C6. \<open>WalkingSpentCalories\<close> is the literal formula, 0.035 times the weight plus the
  square of the mean speed times 0.278, divided by the height over 100, times 0.029 times
  the weight, all times the duration times 60, for every input: the height is not
  tested. For 1000 steps in one hour at 70 kg and 170 cm it is the float64
  \<open>5254414947751505 * 2 ^ - 45\<close> (149.339...), which depends on the speed being squared.
  With a zero height, of either sign, the division is by zero and the result is an
  infinity or not-a-number; both occur.
\<close>

theorem walking_calories_formula:
  "WalkingSpentCalories action duration weight height =
     fmul (fmul (fadd (fmul (const64 35 1000) weight)
       (fmul (fmul (fdiv (Pow2 (fmul (meanSpeed action duration) (const64 278 1000)))
          (fdiv height (const64 100 1))) (const64 29 1000)) weight)) duration) (const64 60 1) \<and>
   WalkingSpentCalories 1000 (const64 1 1) (const64 70 1) (const64 170 1) =
     Fin False 5254414947751505 (- 45) \<and>
   not_finite (WalkingSpentCalories action duration weight (Fin s 0 (- 1074))) \<and>
   WalkingSpentCalories 1000 (const64 1 1) (const64 70 1) (const64 0 1) = Inf False \<and>
   WalkingSpentCalories 0 (const64 1 1) (const64 70 1) (const64 0 1) = NaN"
proof -
  have formula: "WalkingSpentCalories action duration weight height =
     fmul (fmul (fadd (fmul (const64 35 1000) weight)
       (fmul (fmul (fdiv (Pow2 (fmul (meanSpeed action duration) (const64 278 1000)))
          (fdiv height (const64 100 1))) (const64 29 1000)) weight)) duration) (const64 60 1)"
    by (simp add: WalkingSpentCalories_def walkingCaloriesWeightMultiplier_def
        walkingSpeedHeightMultiplier_def kmhInMsec_def cmInM_def minInH_def)
  have "not_finite (fdiv (Pow2 (fmul (meanSpeed action duration) kmhInMsec))
      (fdiv (Fin s 0 (- 1074)) cmInM))"
    unfolding cmInM_def zero_height_in_metres by (rule fdiv_zero_divisor)
  then have zero_height:
    "not_finite (WalkingSpentCalories action duration weight (Fin s 0 (- 1074)))"
    unfolding WalkingSpentCalories_def
    by (intro fmul_not_finite fadd_not_finite)
  from formula WalkingSpentCalories_1000_1_70_170 zero_height
    WalkingSpentCalories_zero_height_inf WalkingSpentCalories_zero_height_nan
  show ?thesis by (intro conjI)
qed

text \<open>
  C1. The dispatcher branches on the training type: for the running label the report
  holds the step distance, \<open>meanSpeed\<close> and \<open>RunningSpentCalories\<close>; for the walking
  label the step distance, \<open>meanSpeed\<close> and \<open>WalkingSpentCalories\<close>; for the swimming
  label the step distance, \<open>swimmingMeanSpeed\<close> and \<open>SwimmingSpentCalories\<close>. For
  1000 actions in one hour at 70 kg and 170 cm, with 20 laps of a 25 m pool, the three
  reports read 0.65 km at 0.65 km/h with 87.96 calories, 0.65 km at 0.65 km/h with 149.34
  calories, and 0.65 km at 0.50 km/h with 224.00 calories.
\<close>

theorem ShowTrainingInfo_branches:
  "ShowTrainingInfo action str_running duration weight height lengthPool countPool =
     Sprintf str_running duration (distance action) (meanSpeed action duration)
       (RunningSpentCalories action weight duration) \<and>
   ShowTrainingInfo action str_walking duration weight height lengthPool countPool =
     Sprintf str_walking duration (distance action) (meanSpeed action duration)
       (WalkingSpentCalories action duration weight height) \<and>
   ShowTrainingInfo action str_swimming duration weight height lengthPool countPool =
     Sprintf str_swimming duration (distance action)
       (swimmingMeanSpeed lengthPool countPool duration)
       (SwimmingSpentCalories lengthPool countPool duration weight) \<and>
   ShowTrainingInfo 1000 str_running (const64 1 1) (const64 70 1) (const64 170 1) 25 20 =
     tpl_type @ str_running @ tpl_duration @ ''1.00'' @ tpl_distance @ ''0.65'' @
     tpl_speed @ ''0.65'' @ tpl_calories @ ''87.96'' @ tpl_end \<and>
   ShowTrainingInfo 1000 str_walking (const64 1 1) (const64 70 1) (const64 170 1) 25 20 =
     tpl_type @ str_walking @ tpl_duration @ ''1.00'' @ tpl_distance @ ''0.65'' @
     tpl_speed @ ''0.65'' @ tpl_calories @ ''149.34'' @ tpl_end \<and>
   ShowTrainingInfo 1000 str_swimming (const64 1 1) (const64 70 1) (const64 170 1) 25 20 =
     tpl_type @ str_swimming @ tpl_duration @ ''1.00'' @ tpl_distance @ ''0.65'' @
     tpl_speed @ ''0.50'' @ tpl_calories @ ''224.00'' @ tpl_end"
proof -
  have branches:
    "ShowTrainingInfo action str_running duration weight height lengthPool countPool =
       Sprintf str_running duration (distance action) (meanSpeed action duration)
         (RunningSpentCalories action weight duration) \<and>
     ShowTrainingInfo action str_walking duration weight height lengthPool countPool =
       Sprintf str_walking duration (distance action) (meanSpeed action duration)
         (WalkingSpentCalories action duration weight height) \<and>
     ShowTrainingInfo action str_swimming duration weight height lengthPool countPool =
       Sprintf str_swimming duration (distance action)
         (swimmingMeanSpeed lengthPool countPool duration)
         (SwimmingSpentCalories lengthPool countPool duration weight)"
    by (simp add: ShowTrainingInfo_def label_defs)
  have run_branch:
    "ShowTrainingInfo 1000 str_running (const64 1 1) (const64 70 1) (const64 170 1) 25 20 =
     Sprintf str_running (const64 1 1) (distance 1000) (meanSpeed 1000 (const64 1 1))
       (RunningSpentCalories 1000 (const64 70 1) (const64 1 1))"
    by (simp add: ShowTrainingInfo_def label_defs)
  have run:
    "ShowTrainingInfo 1000 str_running (const64 1 1) (const64 70 1) (const64 170 1) 25 20 =
     tpl_type @ str_running @ tpl_duration @ ''1.00'' @ tpl_distance @ ''0.65'' @
     tpl_speed @ ''0.65'' @ tpl_calories @ ''87.96'' @ tpl_end"
    unfolding run_branch Sprintf_def distance_1000 meanSpeed_1000_1
      RunningSpentCalories_1000_70_1
    unfolding one64 fmt_f2_values fmt_8796
    by (rule refl)
  have walk_branch:
    "ShowTrainingInfo 1000 str_walking (const64 1 1) (const64 70 1) (const64 170 1) 25 20 =
     Sprintf str_walking (const64 1 1) (distance 1000) (meanSpeed 1000 (const64 1 1))
       (WalkingSpentCalories 1000 (const64 1 1) (const64 70 1) (const64 170 1))"
    by (simp add: ShowTrainingInfo_def label_defs)
  have walk:
    "ShowTrainingInfo 1000 str_walking (const64 1 1) (const64 70 1) (const64 170 1) 25 20 =
     tpl_type @ str_walking @ tpl_duration @ ''1.00'' @ tpl_distance @ ''0.65'' @
     tpl_speed @ ''0.65'' @ tpl_calories @ ''149.34'' @ tpl_end"
    unfolding walk_branch Sprintf_def distance_1000 meanSpeed_1000_1
      WalkingSpentCalories_1000_1_70_170
    unfolding one64 fmt_f2_values fmt_14934
    by (rule refl)
  have swim_branch:
    "ShowTrainingInfo 1000 str_swimming (const64 1 1) (const64 70 1) (const64 170 1) 25 20 =
     Sprintf str_swimming (const64 1 1) (distance 1000)
       (swimmingMeanSpeed 25 20 (const64 1 1))
       (SwimmingSpentCalories 25 20 (const64 1 1) (const64 70 1))"
    by (simp add: ShowTrainingInfo_def label_defs)
  have swim:
    "ShowTrainingInfo 1000 str_swimming (const64 1 1) (const64 70 1) (const64 170 1) 25 20 =
     tpl_type @ str_swimming @ tpl_duration @ ''1.00'' @ tpl_distance @ ''0.65'' @
     tpl_speed @ ''0.50'' @ tpl_calories @ ''224.00'' @ tpl_end"
    unfolding swim_branch Sprintf_def distance_1000 swimmingMeanSpeed_25_20_1
      SwimmingSpentCalories_25_20_1_70
    unfolding one64 fmt_f2_values
    by (rule refl)
  from branches run walk swim show ?thesis
    by (intro conjI) simp_all
qed

section \<open>The rounding error of one operation\<close>

text \<open>
  In the normal range, \<open>round_rat\<close> returns a finite value within the fraction
  \<open>2 ^ - 53\<close> of the rational it rounds; so do conversion, product and quotient.
\<close>

lemma bitlength_bounds:
  "0 < n \<Longrightarrow> 2 ^ (bitlength n - 1) \<le> n \<and> n < 2 ^ bitlength n"
proof (induction n rule: bitlength.induct)
  case (1 n)
  show ?case
  proof (cases "n div 2 = 0")
    case True
    with 1(2) have "n = 1" by linarith
    then show ?thesis by (simp add: bitlength.simps)
  next
    case False
    then have pos: "0 < n div 2" by simp
    from 1(1) [OF _ pos] 1(2)
    have ih: "2 ^ (bitlength (n div 2) - 1) \<le> n div 2" "n div 2 < 2 ^ bitlength (n div 2)"
      by auto
    have bl: "bitlength n = Suc (bitlength (n div 2))"
      using 1(2) by (subst bitlength.simps) simp
    have blpos: "0 < bitlength (n div 2)"
      using pos by (subst bitlength.simps) simp
    have "2 * 2 ^ (bitlength (n div 2) - 1) \<le> n"
      using ih(1) by linarith
    moreover have "2 * 2 ^ (bitlength (n div 2) - 1) = (2::nat) ^ bitlength (n div 2)"
      using blpos by (cases "bitlength (n div 2)") simp_all
    moreover have "n < 2 * 2 ^ bitlength (n div 2)"
      using ih(2) by linarith
    ultimately show ?thesis
      by (simp add: bl)
  qed
qed

lemma rne_div_error:
  assumes "0 < q"
  shows "\<bar>real (rne_div p q) - real p / real q\<bar> \<le> 1 / 2"
proof -
  define n where "n = p div q"
  define r where "r = p mod q"
  have p: "p = q * n + r" by (simp add: n_def r_def)
  have rq: "r < q" using assms by (simp add: r_def)
  have quot: "real p / real q = real n + real r / real q"
    using assms by (simp add: p field_simps)
  have frac: "0 \<le> real r / real q" "real r / real q < 1"
    using rq assms by simp_all
  consider (lo) "2 * r < q" | (hi) "q < 2 * r" | (mid) "2 * r = q" by linarith
  then show ?thesis
  proof cases
    case lo
    then have "rne_div p q = n" by (simp add: rne_div_def n_def r_def Let_def)
    moreover from lo have "real r / real q \<le> 1 / 2"
      using assms by (simp add: field_simps)
    ultimately show ?thesis using frac by (simp add: quot)
  next
    case hi
    then have "rne_div p q = n + 1" by (simp add: rne_div_def n_def r_def Let_def)
    moreover from hi have "1 / 2 \<le> real r / real q"
      using assms by (simp add: field_simps)
    ultimately show ?thesis using frac by (simp add: quot)
  next
    case mid
    from mid have half: "real r / real q = 1 / 2"
      using assms by (simp add: field_simps)
    from mid have "rne_div p q = n \<or> rne_div p q = n + 1"
      by (simp add: rne_div_def n_def r_def Let_def)
    then show ?thesis
    proof
      assume "rne_div p q = n"
      then have "real (rne_div p q) - real p / real q = - (1 / 2)"
        unfolding quot half by simp
      then show ?thesis by simp
    next
      assume "rne_div p q = n + 1"
      then have "real (rne_div p q) - real p / real q = 1 / 2"
        unfolding quot half by simp
      then show ?thesis by simp
    qed
  qed
qed

lemma scaled_quotient:
  assumes "0 < q"
  shows "real (p * 2 ^ nat (- e)) / real (q * 2 ^ nat e) = real p / real q / 2 powi e"
proof (cases "0 \<le> e")
  case True
  then show ?thesis by (simp add: power_int_def)
next
  case False
  then show ?thesis by (simp add: power_int_def power_inverse field_simps)
qed

lemma bitlength_powi:
  assumes "0 < n"
  shows "2 powi (int (bitlength n) - 1) \<le> real n" "real n < 2 powi int (bitlength n)"
proof -
  from bitlength_bounds [OF assms]
  have a: "2 ^ (bitlength n - 1) \<le> n" and b: "n < 2 ^ bitlength n" by auto
  have pos: "0 < bitlength n" using assms by (subst bitlength.simps) simp
  then have "int (bitlength n) - 1 = int (bitlength n - 1)" by simp
  then have "(2::real) powi (int (bitlength n) - 1) = 2 ^ (bitlength n - 1)"
    by (simp only: power_int_of_nat)
  also have "\<dots> = real (2 ^ (bitlength n - 1))" by simp
  also have "\<dots> \<le> real n" using a by (simp only: of_nat_le_iff)
  finally show "2 powi (int (bitlength n) - 1) \<le> real n" .
  have "real n < real (2 ^ bitlength n)" using b by (simp only: of_nat_less_iff)
  then show "real n < 2 powi int (bitlength n)" by simp
qed

lemma powi2_add: "(2::real) powi (a + b) = 2 powi a * 2 powi b"
  by (simp add: power_int_add)

lemma powi2_mono: "a \<le> b \<Longrightarrow> (2::real) powi a \<le> 2 powi b"
  by (simp add: power_int_increasing)

lemma powi2_strict_mono: "a < b \<Longrightarrow> (2::real) powi a < 2 powi b"
  by (simp add: power_int_strict_increasing)

lemma first_exp_window:
  assumes p: "0 < p" and q: "0 < q"
  defines "e0 \<equiv> int (bitlength p) - int (bitlength q) - 53"
  shows "2 ^ 52 * 2 powi e0 < real p / real q" "real p / real q < 2 ^ 54 * 2 powi e0"
proof -
  let ?bp = "int (bitlength p)" and ?bq = "int (bitlength q)"
  note bp = bitlength_powi [OF p] and bq = bitlength_powi [OF q]
  have qpos: "0 < real q" using q by simp
  have "2 ^ 52 * 2 powi e0 = (2::real) powi (52 + e0)"
    by (simp add: powi2_add)
  also have "52 + e0 = ?bp - 1 - ?bq" by (simp add: e0_def)
  finally have lo: "2 ^ 52 * 2 powi e0 = (2::real) powi (?bp - 1 - ?bq)" .
  have "2 powi (?bp - 1 - ?bq) * real q < 2 powi (?bp - 1 - ?bq) * 2 powi ?bq"
    using bq(2) by (simp add: mult_strict_left_mono)
  also have "\<dots> = 2 powi (?bp - 1)"
    using powi2_add [of "?bp - 1 - ?bq" "?bq"] by simp
  also have "\<dots> \<le> real p" by (rule bp(1))
  finally have "2 powi (?bp - 1 - ?bq) < real p / real q"
    using qpos by (simp add: field_simps)
  then show "2 ^ 52 * 2 powi e0 < real p / real q"
    by (simp only: lo)
  have "2 ^ 54 * 2 powi e0 = (2::real) powi (54 + e0)"
    by (simp add: powi2_add)
  also have "54 + e0 = ?bp - (?bq - 1)" by (simp add: e0_def)
  finally have hi: "2 ^ 54 * 2 powi e0 = (2::real) powi (?bp - (?bq - 1))" .
  have "real p < 2 powi ?bp" by (rule bp(2))
  also have "\<dots> = 2 powi (?bp - (?bq - 1)) * 2 powi (?bq - 1)"
    using powi2_add [of "?bp - (?bq - 1)" "?bq - 1"] by simp
  also have "\<dots> \<le> 2 powi (?bp - (?bq - 1)) * real q"
    using bq(1) by (simp add: mult_left_mono)
  finally have "real p / real q < 2 powi (?bp - (?bq - 1))"
    using qpos by (simp add: field_simps)
  then show "real p / real q < 2 ^ 54 * 2 powi e0"
    by (simp only: hi)
qed

lemma norm_exp_normal:
  assumes p: "0 < p" and q: "0 < q"
    and lo: "2 powi (- 1022) \<le> real p / real q"
    and hi: "real p / real q < 2 powi 1023"
  shows "- 1074 \<le> norm_exp p q" "norm_exp p q \<le> 970"
    "2 ^ 52 * 2 powi norm_exp p q \<le> real p / real q"
    "real p / real q < 2 ^ 53 * 2 powi norm_exp p q"
proof -
  define e0 where "e0 = int (bitlength p) - int (bitlength q) - 53"
  define x where "x = real p / real q"
  define e1 where "e1 = (if 2 ^ 53 * (q * 2 ^ nat e0) \<le> p * 2 ^ nat (- e0) then e0 + 1 else e0)"
  have e: "norm_exp p q = max e1 (- 1074)"
    by (simp add: norm_exp_def e0_def e1_def Let_def)
  note w = first_exp_window [OF p q, folded e0_def x_def]
  have cond: "(2 ^ 53 * (q * 2 ^ nat e0) \<le> p * 2 ^ nat (- e0)) \<longleftrightarrow> 2 ^ 53 * 2 powi e0 \<le> x"
  proof -
    have dpos: "0 < real (q * 2 ^ nat e0)" using q by simp
    have "(2 ^ 53 * (q * 2 ^ nat e0) \<le> p * 2 ^ nat (- e0)) \<longleftrightarrow>
        real (2 ^ 53 * (q * 2 ^ nat e0)) \<le> real (p * 2 ^ nat (- e0))"
      by (simp only: of_nat_le_iff)
    also have "\<dots> \<longleftrightarrow> 2 ^ 53 * real (q * 2 ^ nat e0) \<le> real (p * 2 ^ nat (- e0))"
      by simp
    also have "\<dots> \<longleftrightarrow> 2 ^ 53 \<le> real (p * 2 ^ nat (- e0)) / real (q * 2 ^ nat e0)"
      using dpos by (simp only: pos_le_divide_eq)
    also have "\<dots> \<longleftrightarrow> 2 ^ 53 \<le> x / 2 powi e0"
      by (simp only: scaled_quotient [OF q] x_def)
    also have "\<dots> \<longleftrightarrow> 2 ^ 53 * 2 powi e0 \<le> x"
      by (simp add: pos_le_divide_eq)
    finally show ?thesis .
  qed
  have w1: "2 ^ 52 * 2 powi e1 \<le> x" "x < 2 ^ 53 * 2 powi e1"
  proof -
    show "2 ^ 52 * 2 powi e1 \<le> x"
    proof (cases "2 ^ 53 * (q * 2 ^ nat e0) \<le> p * 2 ^ nat (- e0)")
      case True
      with cond have r: "2 ^ 53 * 2 powi e0 \<le> x" by blast
      from True have "e1 = e0 + 1" by (simp only: e1_def if_True)
      then have "2 powi e1 = 2 * (2::real) powi e0" by (simp add: powi2_add)
      with r show ?thesis by simp
    next
      case False
      then have "e1 = e0" by (simp only: e1_def if_False)
      with w(1) show ?thesis by simp
    qed
    show "x < 2 ^ 53 * 2 powi e1"
    proof (cases "2 ^ 53 * (q * 2 ^ nat e0) \<le> p * 2 ^ nat (- e0)")
      case True
      then have "e1 = e0 + 1" by (simp only: e1_def if_True)
      then have "2 powi e1 = 2 * (2::real) powi e0" by (simp add: powi2_add)
      with w(2) show ?thesis by simp
    next
      case False
      with cond have r: "\<not> 2 ^ 53 * 2 powi e0 \<le> x" by blast
      from False have "e1 = e0" by (simp only: e1_def if_False)
      with r show ?thesis by simp
    qed
  qed
  note w1x = w1 [unfolded x_def]
  have ge: "- 1074 \<le> e1"
  proof (rule ccontr)
    assume "\<not> - 1074 \<le> e1"
    then have "e1 \<le> - 1075" by simp
    then have "2 powi e1 \<le> (2::real) powi (- 1075)" by (rule powi2_mono)
    then have "2 ^ 53 * 2 powi e1 \<le> 2 ^ 53 * (2::real) powi (- 1075)" by simp
    also have "\<dots> = 2 powi (- 1022)" using powi2_add [of 53 "- 1075"] by simp
    finally show False using w1x(2) lo by linarith
  qed
  have le: "e1 \<le> 970"
  proof (rule ccontr)
    assume "\<not> e1 \<le> 970"
    then have "971 \<le> e1" by simp
    then have "(2::real) powi 971 \<le> 2 powi e1" by (rule powi2_mono)
    then have "2 ^ 52 * (2::real) powi 971 \<le> 2 ^ 52 * 2 powi e1" by simp
    moreover have "2 ^ 52 * (2::real) powi 971 = 2 powi 1023"
      using powi2_add [of 52 971] by simp
    ultimately show False using w1x(1) hi by linarith
  qed
  from ge have ee: "norm_exp p q = e1" by (simp add: e)
  from ge le w1x show "- 1074 \<le> norm_exp p q" "norm_exp p q \<le> 970"
    "2 ^ 52 * 2 powi norm_exp p q \<le> real p / real q"
    "real p / real q < 2 ^ 53 * 2 powi norm_exp p q"
    by (simp_all only: ee)
qed

lemma round_rat_normal:
  assumes p: "0 < p" and q: "0 < q"
    and lo: "2 powi (- 1022) \<le> real p / real q"
    and hi: "real p / real q < 2 powi 1023"
  shows "\<exists>m e. round_rat s p q = Fin s m e \<and> 0 < m \<and>
      \<bar>real m * 2 powi e - real p / real q\<bar> \<le> real p / real q * 2 powi (- 53)"
proof -
  define e where "e = norm_exp p q"
  define x where "x = real p / real q"
  define m where "m = rne_div (p * 2 ^ nat (- e)) (q * 2 ^ nat e)"
  define y where "y = x / 2 powi e"
  note ne = norm_exp_normal [OF p q lo hi, folded e_def x_def]
  have Ppos: "0 < (2::real) powi e" by simp
  have y: "2 ^ 52 \<le> y" "y < 2 ^ 53"
    using ne(3,4) Ppos by (simp_all add: y_def field_simps)
  have "0 < q * 2 ^ nat e" using q by simp
  from rne_div_error [OF this, of "p * 2 ^ nat (- e)"]
  have my: "\<bar>real m - y\<bar> \<le> 1 / 2"
    by (simp only: m_def y_def x_def scaled_quotient [OF q])
  have y': "4503599627370496 \<le> y" "y < 9007199254740992"
    using y by simp_all
  have "real 4503599627370495 < real m" using my y'(1) by linarith
  then have mlo: "4503599627370496 \<le> m" by simp
  have "real m < real 9007199254740993" using my y'(2) by linarith
  then have mhi: "m \<le> 9007199254740992" by simp
  have rr: "round_rat s p q = pack s m e"
    using p by (simp add: round_rat_def Let_def e_def m_def)
  have xy: "x = y * 2 powi e" using Ppos by (simp add: y_def)
  have "real m * 2 powi e - x = (real m - y) * 2 powi e"
    by (simp add: xy algebra_simps)
  then have "\<bar>real m * 2 powi e - x\<bar> = \<bar>real m - y\<bar> * 2 powi e"
    by (simp add: abs_mult)
  also have "\<dots> \<le> 1 / 2 * 2 powi e"
    using my by (intro mult_right_mono) simp_all
  also have "\<dots> \<le> x * 2 powi (- 53)"
  proof -
    have "2 powi e \<le> x / 2 ^ 52" using ne(3) by (simp add: field_simps)
    then have "1 / 2 * 2 powi e \<le> x / 2 ^ 53" by simp
    also have "\<dots> = x * 2 powi (- 53)" by (simp add: power_int_minus field_simps)
    finally show ?thesis .
  qed
  finally have err: "\<bar>real m * 2 powi e - x\<bar> \<le> x * 2 powi (- 53)" .
  show ?thesis
  proof (cases "m = 2 ^ 53")
    case True
    then have "round_rat s p q = Fin s (2 ^ 52) (e + 1)"
      using ne(2) by (simp add: rr pack_def)
    moreover have "real (2 ^ 52) * 2 powi (e + 1) = real m * 2 powi e"
      using True by (simp add: powi2_add)
    moreover have "0 < (2::nat) ^ 52" by simp
    ultimately show ?thesis using err unfolding x_def by metis
  next
    case False
    then have "round_rat s p q = Fin s m e"
      using ne(2) by (simp add: rr pack_def)
    moreover have "0 < m" using mlo by simp
    ultimately show ?thesis using err unfolding x_def by blast
  qed
qed

lemma range_normal:
  assumes "1 / 16384 \<le> x" "x \<le> 2 ^ 70"
  shows "2 powi (- 1022) \<le> (x::real)" "x < 2 powi 1023"
proof -
  have "(2::real) powi (- 1022) \<le> 2 powi (- 14)" by (rule powi2_mono) simp
  also have "\<dots> = 1 / 16384" by (simp add: power_int_minus field_simps)
  finally show "2 powi (- 1022) \<le> x" using assms(1) by linarith
  have "(2::real) ^ 70 = 2 powi 70" by simp
  also have "\<dots> < 2 powi 1023" by (rule powi2_strict_mono) simp
  finally show "x < 2 powi 1023" using assms(2) by linarith
qed

lemma scaled_product: "real (a * 2 ^ nat k) / real (2 ^ nat (- k)) = real a * 2 powi k"
proof (cases "0 \<le> k")
  case True
  then show ?thesis by (simp add: power_int_def)
next
  case False
  then show ?thesis by (simp add: power_int_def power_inverse field_simps)
qed

lemma fmul_normal:
  assumes m: "0 < m" and n: "0 < n"
    and lo: "1 / 16384 \<le> valof (Fin False m e) * valof (Fin False n f)"
    and hi: "valof (Fin False m e) * valof (Fin False n f) \<le> 2 ^ 70"
  shows "\<exists>k g. fmul (Fin False m e) (Fin False n f) = Fin False k g \<and> 0 < k \<and>
      \<bar>valof (Fin False k g) - valof (Fin False m e) * valof (Fin False n f)\<bar>
        \<le> valof (Fin False m e) * valof (Fin False n f) * 2 powi (- 53)"
proof -
  define p where "p = m * n * 2 ^ nat (e + f)"
  define q where "q = (2::nat) ^ nat (- (e + f))"
  have p: "0 < p" using m n by (simp add: p_def)
  have q: "0 < q" by (simp add: q_def)
  have "real p / real q = real (m * n) * 2 powi (e + f)"
    unfolding p_def q_def by (rule scaled_product)
  also have "\<dots> = (real m * 2 powi e) * (real n * 2 powi f)"
    by (simp add: powi2_add)
  finally have v: "real p / real q = valof (Fin False m e) * valof (Fin False n f)"
    by simp
  from range_normal [OF lo hi]
  have "2 powi (- 1022) \<le> real p / real q" "real p / real q < 2 powi 1023"
    by (simp_all only: v)
  from round_rat_normal [OF p q this, of False]
  obtain k g where "round_rat False p q = Fin False k g" "0 < k"
    "\<bar>real k * 2 powi g - real p / real q\<bar> \<le> real p / real q * 2 powi (- 53)"
    by blast
  then show ?thesis
    unfolding v by (auto simp: p_def q_def)
qed

lemma fdiv_normal:
  assumes m: "0 < m" and n: "0 < n"
    and lo: "1 / 16384 \<le> valof (Fin False m e) / valof (Fin False n f)"
    and hi: "valof (Fin False m e) / valof (Fin False n f) \<le> 2 ^ 70"
  shows "\<exists>k g. fdiv (Fin False m e) (Fin False n f) = Fin False k g \<and> 0 < k \<and>
      \<bar>valof (Fin False k g) - valof (Fin False m e) / valof (Fin False n f)\<bar>
        \<le> valof (Fin False m e) / valof (Fin False n f) * 2 powi (- 53)"
proof -
  define p where "p = m * 2 ^ nat (e - f)"
  define q where "q = n * 2 ^ nat (f - e)"
  have p: "0 < p" using m by (simp add: p_def)
  have q: "0 < q" using n by (simp add: q_def)
  have "real p / real q = real m / real n / 2 powi (f - e)"
    using scaled_quotient [OF n, of m "f - e"] by (simp add: p_def q_def)
  also have "\<dots> = (real m * 2 powi e) / (real n * 2 powi f)"
    by (simp add: power_int_diff field_simps)
  finally have v: "real p / real q = valof (Fin False m e) / valof (Fin False n f)"
    by simp
  from range_normal [OF lo hi]
  have "2 powi (- 1022) \<le> real p / real q" "real p / real q < 2 powi 1023"
    by (simp_all only: v)
  from round_rat_normal [OF p q this, of False]
  obtain k g where "round_rat False p q = Fin False k g" "0 < k"
    "\<bar>real k * 2 powi g - real p / real q\<bar> \<le> real p / real q * 2 powi (- 53)"
    by blast
  then show ?thesis
    unfolding v using n by (auto simp: p_def q_def)
qed

lemma float64_of_int_normal:
  assumes "0 < sint n"
  shows "\<exists>k g. float64_of_int n = Fin False k g \<and> 0 < k \<and>
      \<bar>valof (Fin False k g) - real_of_int (sint n)\<bar> \<le> real_of_int (sint n) * 2 powi (- 53)"
proof -
  define p where "p = nat \<bar>sint n\<bar>"
  have p: "0 < p" using assms by (simp add: p_def)
  have rp: "real p = real_of_int (sint n)" using assms by (simp add: p_def)
  have "sint n < 2 ^ 63" using sint_lt [of n] by simp
  then have "real_of_int (sint n) < 2 ^ 63"
    by (metis of_int_less_iff of_int_numeral of_int_power)
  then have hi: "real p / real 1 \<le> 2 ^ 70" unfolding rp by simp
  have "1 \<le> real_of_int (sint n)" using assms by linarith
  then have lo: "1 / 16384 \<le> real p / real 1" unfolding rp by simp
  from round_rat_normal [OF p _ range_normal [OF lo hi], of False]
  obtain k g where "round_rat False p 1 = Fin False k g" "0 < k"
    "\<bar>real k * 2 powi g - real p / real 1\<bar> \<le> real p / real 1 * 2 powi (- 53)"
    by auto
  then show ?thesis
    using assms unfolding rp by (auto simp: float64_of_int_def p_def)
qed

lemma distance_positive_steps:
  assumes pos: "0 < sint n"
  shows "\<exists>k g. distance n = Fin False k g \<and>
     \<bar>valof (Fin False k g) - real_of_int (sint n) * (65 / 100000)\<bar>
       \<le> real_of_int (sint n) * (65 / 100000) * 2 powi (- 50)"
proof -
  define N where "N = real_of_int (sint n)"
  have u: "(2::real) powi (- 53) = 1 / 9007199254740992"
    by (simp add: power_int_minus field_simps)
  have u8: "(2::real) powi (- 50) = 1 / 1125899906842624"
    by (simp add: power_int_minus field_simps)
  have N1: "1 \<le> N" using pos unfolding N_def by linarith
  have "sint n < 2 ^ 63" using sint_lt [of n] by simp
  then have "real_of_int (sint n) < real_of_int (2 ^ 63)" by (simp only: of_int_less_iff)
  then have N63: "N < 9223372036854775808" unfolding N_def by simp
  from float64_of_int_normal [OF pos] obtain m0 e0 where
    x0: "float64_of_int n = Fin False m0 e0" and m0: "0 < m0" and
    v0: "\<bar>valof (Fin False m0 e0) - N\<bar> \<le> N * 2 powi (- 53)"
    unfolding N_def by blast
  define a where "a = valof (Fin False m0 e0)"
  define c where "c = valof (Fin False 5854679515581645 (- 53))"
  have c: "c = 5854679515581645 / 9007199254740992"
    by (simp add: c_def power_int_minus field_simps)
  note v0' = v0 [folded a_def, unfolded u]
  have ac_lo: "1 / 16384 \<le> a * c" and ac_hi: "a * c \<le> 2 ^ 70"
    using v0' N1 N63 unfolding c by (simp_all, linarith+)
  have cpos: "0 < (5854679515581645::nat)" by simp
  from fmul_normal [OF m0 cpos, of e0 "- 53", folded a_def c_def, OF ac_lo ac_hi]
  obtain m1 e1 where
    x1: "fmul (Fin False m0 e0) (Fin False 5854679515581645 (- 53)) = Fin False m1 e1"
    and m1: "0 < m1"
    and v1: "\<bar>valof (Fin False m1 e1) - a * c\<bar> \<le> a * c * 2 powi (- 53)"
    by blast
  define b where "b = valof (Fin False m1 e1)"
  define k where "k = valof (Fin False 8796093022208000 (- 43))"
  have k: "k = 1000"
    by (simp add: k_def power_int_minus field_simps)
  note v1' = v1 [folded b_def, unfolded u c]
  have bk_lo: "1 / 16384 \<le> b / k" and bk_hi: "b / k \<le> 2 ^ 70"
    using v0' v1' N1 N63 unfolding k by (simp_all, linarith+)
  have kpos: "0 < (8796093022208000::nat)" by simp
  from fdiv_normal [OF m1 kpos, of e1 "- 43", folded b_def k_def, OF bk_lo bk_hi]
  obtain m2 e2 where
    x2: "fdiv (Fin False m1 e1) (Fin False 8796093022208000 (- 43)) = Fin False m2 e2"
    and v2: "\<bar>valof (Fin False m2 e2) - b / k\<bar> \<le> b / k * 2 powi (- 53)"
    by blast
  define d where "d = valof (Fin False m2 e2)"
  note v2' = v2 [folded d_def, unfolded u k]
  have dist: "distance n = Fin False m2 e2"
    unfolding distance_def lenStep_def mInKm_def lenStep_bits mInKm_bits x0 x1 x2 ..
  have "\<bar>d - N * (65 / 100000)\<bar> \<le> N * (65 / 100000) * (1 / 1125899906842624)"
    using v0' v1' v2' N1 by linarith
  then have "\<bar>valof (Fin False m2 e2) - real_of_int (sint n) * (65 / 100000)\<bar>
       \<le> real_of_int (sint n) * (65 / 100000) * 2 powi (- 50)"
    unfolding d_def N_def u8 .
  with dist show ?thesis by blast
qed

section \<open>The claim on the slope of the distance\<close>

lemma slope_bits: "const64 65 100000 = Fin False 5995191823955604 (- 63)"
  by (simp add: round_defs)

lemma distance_3: "distance 3 = Fin False 8992787735933407 (- 62)"
  unfolding distance_def lenStep_def mInKm_def float64_of_int_numeral
  unfolding lenStep_bits mInKm_bits
  by (simp add: round_defs)

lemma slope_times_3:
  "fmul (float64_of_int 3) (const64 65 100000) = Fin False 8992787735933406 (- 62)"
  unfolding float64_of_int_numeral slope_bits
  by (simp add: round_defs)

text \<open>
  C9, as the specification states it, fails: for three steps the distance, which rounds
  \<open>3 * 0.65\<close> and then the quotient by 1000, is one unit in the last place above the
  float64 product \<open>3 * 0.00065\<close>.
\<close>

theorem distance_3_not_slope_product:
  "distance 3 \<noteq> fmul (float64_of_int 3) (const64 65 100000)"
  unfolding distance_3 slope_times_3 by simp

text \<open>
  C9, as the code has it. \<open>distance\<close> is linear in the action count with slope 0.00065
  up to float64 rounding: for every non-negative action count the distance is a finite
  float64 whose value differs from the real number \<open>actionCount * 0.00065\<close> by at most
  the fraction \<open>2 ^ - 50\<close> of it (so \<open>distance 0\<close> is 0).
\<close>

theorem distance_linear_up_to_rounding:
  "0 \<le> sint action \<Longrightarrow>
   \<not> not_finite (distance action) \<and>
   \<bar>valof (distance action) - real_of_int (sint action) * (65 / 100000)\<bar>
     \<le> real_of_int (sint action) * (65 / 100000) * 2 powi (- 50)"
proof -
  assume nonneg: "0 \<le> sint action"
  show ?thesis
  proof (cases "sint action = 0")
    case True
    then have "float64_of_int action = Fin False 0 (- 1074)"
      by (simp add: float64_of_int_def round_rat_def)
    then have "distance action = Fin False 0 (- 1074)"
      unfolding distance_def lenStep_def mInKm_def lenStep_bits mInKm_bits
      by (simp add: round_defs)
    with True show ?thesis by simp
  next
    case False
    with nonneg have "0 < sint action" by simp
    from distance_positive_steps [OF this] obtain k g where
      "distance action = Fin False k g"
      "\<bar>valof (Fin False k g) - real_of_int (sint action) * (65 / 100000)\<bar>
         \<le> real_of_int (sint action) * (65 / 100000) * 2 powi (- 50)"
      by blast
    then show ?thesis by (simp del: valof.simps of_int_sint)
  qed
qed

theorem distance_linear_up_to_rounding_witness:
  "0 \<le> sint (1000 :: 64 word) \<and>
   \<not> not_finite (distance 1000) \<and>
   \<bar>valof (distance 1000) - 65 / 100\<bar> \<le> 65 / 100 * 2 powi (- 50) \<and>
   valof (distance 0) = 0"
proof -
  have a: "0 \<le> sint (1000 :: 64 word)" by simp
  have b: "0 \<le> sint (0 :: 64 word)" by simp
  from distance_linear_up_to_rounding [OF a] distance_linear_up_to_rounding [OF b] a
  show ?thesis by simp
qed

end
